theory Spec2Isabelle
  imports
    Main
    "HOL-Library.Word"
    "HOL-Library.Char_ord"
    "HOL-Library.List_Lexorder"
    "HOL-Library.Product_Lexorder"
begin

section \<open>Python values, rows and errors\<close>

text \<open>
  The values that travel through \<^verbatim>\<open>main.py\<close>: what the driver hands back for a field,
  what \<^verbatim>\<open>model_dump()\<close> produces and what is given to \<^verbatim>\<open>yaml.dump\<close>. A
  \<^verbatim>\<open>uuid.UUID\<close> is its 128-bit integer; a \<^verbatim>\<open>dict\<close> is an association list in
  insertion order.
\<close>

datatype pyval =
    PNone
  | PBool bool
  | PInt int
  | PStr string
  | PUuid "128 word"
  | PList "pyval list"
  | PDict "(string \<times> pyval) list"

text \<open>
  Every exception the modelled code can raise. \<open>DatabaseError\<close> carries the message the
  server gave for a failed statement.
\<close>

datatype error =
    OperationalError
  | ProgrammingError
  | DatabaseError string
  | IndexError
  | KeyError
  | AttributeError
  | ValidationError

text \<open>
  A fetched row is what the connection's row factory built: a positional tuple
  (psycopg's default) or a \<^verbatim>\<open>dict\<close> keyed by column name (\<^verbatim>\<open>dict_row\<close>).
\<close>

datatype row_factory = tuple_row | dict_row

datatype row = TupleRow "pyval list" | DictRow "(string \<times> pyval) list"

text \<open>\<^verbatim>\<open>d[k] = v\<close> on a dict: an existing key keeps its place, a new key goes last.\<close>

fun dict_setitem :: "(string \<times> pyval) list \<Rightarrow> string \<Rightarrow> pyval \<Rightarrow> (string \<times> pyval) list" where
  "dict_setitem [] k v = [(k, v)]"
| "dict_setitem ((k', v') # d) k v =
     (if k' = k then (k, v) # d else (k', v') # dict_setitem d k v)"

text \<open>\<^verbatim>\<open>dict(pairs)\<close>: the pairs are stored one after the other.\<close>

fun dict_of :: "(string \<times> pyval) list \<Rightarrow> (string \<times> pyval) list \<Rightarrow> (string \<times> pyval) list" where
  "dict_of d [] = d"
| "dict_of d ((k, v) # kvs) = dict_of (dict_setitem d k v) kvs"

text \<open>
  \<^verbatim>\<open>row[i]\<close> with an integer literal \<open>i\<close>: a tuple answers by position and raises
  \<^verbatim>\<open>IndexError\<close> when it is too short; a dict whose keys are column names has no key
  \<open>i\<close> and raises \<^verbatim>\<open>KeyError\<close>.
\<close>

fun getitem :: "row \<Rightarrow> nat \<Rightarrow> error + pyval" where
  "getitem (TupleRow vs) i = (if i < length vs then Inr (vs ! i) else Inl IndexError)"
| "getitem (DictRow d) i = Inl KeyError"

text \<open>\<^verbatim>\<open>row.items()\<close>: the pairs of a dict; a tuple has no such attribute.\<close>

fun items :: "row \<Rightarrow> error + (string \<times> pyval) list" where
  "items (DictRow d) = Inr d"
| "items (TupleRow vs) = Inl AttributeError"

section \<open>The typed records of \<^verbatim>\<open>utils/types.py\<close>\<close>

record TableSummary =
  summary_schema_name :: string
  summary_table_name :: string
  table_description :: "string option"

record DatabaseSummary =
  tables :: "TableSummary list"

record Column =
  column_name :: string
  data_type :: string
  is_nullable :: bool
  column_default :: "string option"
  character_maximum_length :: "int option"
  numeric_precision :: "int option"
  numeric_scale :: "int option"

record Table =
  schema_name :: string
  table_name :: string
  columns :: "Column list"

text \<open>
  The models are pydantic \<^verbatim>\<open>BaseModel\<close>s: constructing one validates every field
  against its annotation and raises when a value does not fit. The validation of the
  three scalar annotations \<^verbatim>\<open>str\<close>, \<^verbatim>\<open>bool\<close> and \<^verbatim>\<open>int\<close> belongs to that
  library; the model takes it as a parameter.
\<close>

record validators =
  validate_str :: "pyval \<Rightarrow> error + string"
  validate_bool :: "pyval \<Rightarrow> error + bool"
  validate_int :: "pyval \<Rightarrow> error + int"

text \<open>An annotation \<^verbatim>\<open>T | None\<close>: \<^verbatim>\<open>None\<close> is accepted as it is, anything else must be a \<open>T\<close>.\<close>

definition validate_optional :: "(pyval \<Rightarrow> error + 'a) \<Rightarrow> pyval \<Rightarrow> error + 'a option" where
  "validate_optional f v =
     (case v of
        PNone \<Rightarrow> Inr None
      | _ \<Rightarrow> (case f v of Inl e \<Rightarrow> Inl e | Inr x \<Rightarrow> Inr (Some x)))"

text \<open>Sequencing of a step that may raise.\<close>

definition bind :: "error + 'a \<Rightarrow> ('a \<Rightarrow> error + 'b) \<Rightarrow> error + 'b" where
  "bind m f = (case m of Inl e \<Rightarrow> Inl e | Inr x \<Rightarrow> f x)"

text \<open>
  \<^verbatim>\<open>TableSummary(schema_name=table[0], table_name=table[1], table_description=table[2])\<close>:
  the three subscripts are evaluated first, then the fields are validated.
\<close>

definition make_TableSummary :: "validators \<Rightarrow> row \<Rightarrow> error + TableSummary" where
  "make_TableSummary V t =
     bind (getitem t 0) (\<lambda>a0.
     bind (getitem t 1) (\<lambda>a1.
     bind (getitem t 2) (\<lambda>a2.
     bind (validate_str V a0) (\<lambda>s.
     bind (validate_str V a1) (\<lambda>n.
     bind (validate_optional (validate_str V) a2) (\<lambda>d.
     Inr \<lparr>summary_schema_name = s, summary_table_name = n, table_description = d\<rparr>))))))"

text \<open>\<^verbatim>\<open>Column(column_name=column[0], ..., numeric_scale=column[6])\<close>.\<close>

definition make_Column :: "validators \<Rightarrow> row \<Rightarrow> error + Column" where
  "make_Column V c =
     bind (getitem c 0) (\<lambda>a0.
     bind (getitem c 1) (\<lambda>a1.
     bind (getitem c 2) (\<lambda>a2.
     bind (getitem c 3) (\<lambda>a3.
     bind (getitem c 4) (\<lambda>a4.
     bind (getitem c 5) (\<lambda>a5.
     bind (getitem c 6) (\<lambda>a6.
     bind (validate_str V a0) (\<lambda>cn.
     bind (validate_str V a1) (\<lambda>dt.
     bind (validate_bool V a2) (\<lambda>nl.
     bind (validate_optional (validate_str V) a3) (\<lambda>cd.
     bind (validate_optional (validate_int V) a4) (\<lambda>ml.
     bind (validate_optional (validate_int V) a5) (\<lambda>np.
     bind (validate_optional (validate_int V) a6) (\<lambda>ns.
     Inr \<lparr>column_name = cn, data_type = dt, is_nullable = nl, column_default = cd,
          character_maximum_length = ml, numeric_precision = np,
          numeric_scale = ns\<rparr>))))))))))))))"

text \<open>
  A list comprehension \<^verbatim>\<open>[f(x) for x in xs]\<close> whose body may raise: the elements are
  built from left to right and the first exception ends the comprehension.
\<close>

fun comprehension :: "('a \<Rightarrow> error + 'b) \<Rightarrow> 'a list \<Rightarrow> error + 'b list" where
  "comprehension f [] = Inr []"
| "comprehension f (x # xs) =
     (case f x of
        Inl e \<Rightarrow> Inl e
      | Inr y \<Rightarrow> (case comprehension f xs of Inl e \<Rightarrow> Inl e | Inr ys \<Rightarrow> Inr (y # ys)))"

text \<open>The mapping step of \<^verbatim>\<open>get_schema_description\<close> (lines 88 to 97).\<close>

definition make_DatabaseSummary :: "validators \<Rightarrow> row list \<Rightarrow> error + DatabaseSummary" where
  "make_DatabaseSummary V rows =
     bind (comprehension (make_TableSummary V) rows) (\<lambda>ts. Inr \<lparr>tables = ts\<rparr>)"

text \<open>
  The mapping step of \<^verbatim>\<open>get_table_description\<close> (lines 146 to 161). The two names are
  the function's own arguments; both are Python strings, which the \<^verbatim>\<open>str\<close> fields
  take as they are.
\<close>

definition make_Table :: "validators \<Rightarrow> string \<Rightarrow> string \<Rightarrow> row list \<Rightarrow> error + Table" where
  "make_Table V schema table rows =
     bind (comprehension (make_Column V) rows) (\<lambda>cs.
     Inr \<lparr>schema_name = schema, table_name = table, columns = cs\<rparr>)"

text \<open>\<^verbatim>\<open>model_dump()\<close>: the model as nested dicts and lists, fields in declaration order.\<close>

definition dump_optional :: "('a \<Rightarrow> pyval) \<Rightarrow> 'a option \<Rightarrow> pyval" where
  "dump_optional f x = (case x of None \<Rightarrow> PNone | Some y \<Rightarrow> f y)"

definition TableSummary_model_dump :: "TableSummary \<Rightarrow> pyval" where
  "TableSummary_model_dump t =
     PDict [(''schema_name'', PStr (summary_schema_name t)),
            (''table_name'', PStr (summary_table_name t)),
            (''table_description'', dump_optional PStr (table_description t))]"

definition DatabaseSummary_model_dump :: "DatabaseSummary \<Rightarrow> pyval" where
  "DatabaseSummary_model_dump s =
     PDict [(''tables'', PList (map TableSummary_model_dump (tables s)))]"

definition Column_model_dump :: "Column \<Rightarrow> pyval" where
  "Column_model_dump c =
     PDict [(''column_name'', PStr (column_name c)),
            (''data_type'', PStr (data_type c)),
            (''is_nullable'', PBool (is_nullable c)),
            (''column_default'', dump_optional PStr (column_default c)),
            (''character_maximum_length'', dump_optional PInt (character_maximum_length c)),
            (''numeric_precision'', dump_optional PInt (numeric_precision c)),
            (''numeric_scale'', dump_optional PInt (numeric_scale c))]"

definition Table_model_dump :: "Table \<Rightarrow> pyval" where
  "Table_model_dump t =
     PDict [(''schema_name'', PStr (schema_name t)),
            (''table_name'', PStr (table_name t)),
            (''columns'', PList (map Column_model_dump (columns t)))]"

section \<open>Canonical text of a UUID\<close>

text \<open>
  \<^verbatim>\<open>str(uuid.UUID)\<close> is \<^verbatim>\<open>'%032x' % self.int\<close> cut into groups of 8, 4, 4, 4 and 12
  digits joined by hyphens.
\<close>

definition hex_digit :: "nat \<Rightarrow> char" where
  "hex_digit n = ''0123456789abcdef'' ! (n mod 16)"

fun hex :: "nat \<Rightarrow> nat \<Rightarrow> string" where
  "hex 0 n = []"
| "hex (Suc k) n = hex k (n div 16) @ [hex_digit n]"

definition str_uuid :: "128 word \<Rightarrow> string" where
  "str_uuid u =
     (let h = hex 32 (unat u)
      in take 8 h @ ''-'' @ take 4 (drop 8 h) @ ''-'' @ take 4 (drop 12 h) @ ''-'' @
         take 4 (drop 16 h) @ ''-'' @ drop 20 h)"

section \<open>The result normalisation inside \<^verbatim>\<open>query_database\<close>\<close>

text \<open>
  Lines 186 to 192: the inner loop over \<^verbatim>\<open>row.items()\<close>, filling the fresh dict
  \<^verbatim>\<open>processed_row\<close>.
\<close>

fun process_items :: "(string \<times> pyval) list \<Rightarrow> (string \<times> pyval) list \<Rightarrow> (string \<times> pyval) list" where
  "process_items processed_row [] = processed_row"
| "process_items processed_row ((key, val) # kvs) =
     process_items
       (case val of
          PUuid u \<Rightarrow> dict_setitem processed_row key (PStr (str_uuid u))
        | _ \<Rightarrow> dict_setitem processed_row key val)
       kvs"

text \<open>Lines 184 to 193: the outer loop, appending to \<^verbatim>\<open>processed_rows\<close>.\<close>

fun process_rows_loop :: "(string \<times> pyval) list list \<Rightarrow> row list \<Rightarrow> error + (string \<times> pyval) list list" where
  "process_rows_loop processed_rows [] = Inr processed_rows"
| "process_rows_loop processed_rows (r # rs) =
     (case items r of
        Inl e \<Rightarrow> Inl e
      | Inr kvs \<Rightarrow> process_rows_loop (processed_rows @ [process_items [] kvs]) rs)"

definition process_rows :: "row list \<Rightarrow> error + (string \<times> pyval) list list" where
  "process_rows rows = process_rows_loop [] rows"

text \<open>
  The Result Normalizer in the specification's words, for comparison with the loops
  above: a unique identifier becomes its canonical text, every other value passes
  through unchanged.
\<close>

definition normalize_value :: "pyval \<Rightarrow> pyval" where
  "normalize_value v = (case v of PUuid u \<Rightarrow> PStr (str_uuid u) | _ \<Rightarrow> v)"

definition normalize_spec :: "(string \<times> pyval) list list \<Rightarrow> (string \<times> pyval) list list" where
  "normalize_spec rows = map (map (\<lambda>(k, v). (k, normalize_value v))) rows"

section \<open>The database\<close>

text \<open>
  The catalog relations the two fixed queries read, with the columns they use.
  \<open>pg_description.description\<close> and the names are never null; a null only arises from
  a \<^verbatim>\<open>LEFT JOIN\<close> without a partner or from a nullable column of the columns view.
\<close>

record pg_class_row =
  oid :: nat
  relname :: string
  relnamespace :: nat
  relkind :: char

record pg_namespace_row =
  nsp_oid :: nat
  nspname :: string

record pg_description_row =
  objoid :: nat
  objsubid :: int
  description :: string

record columns_row =
  col_table_schema :: string
  col_table_name :: string
  ordinal_position :: int
  col_column_name :: string
  col_data_type :: string
  col_is_nullable :: string
  col_column_default :: "string option"
  col_character_maximum_length :: "int option"
  col_numeric_precision :: "int option"
  col_numeric_scale :: "int option"

record database =
  reachable :: bool
  pg_class :: "pg_class_row list"
  pg_namespace :: "pg_namespace_row list"
  pg_description :: "pg_description_row list"
  information_schema_columns :: "columns_row list"

text \<open>What the server sends back for a statement: the column names and the records.\<close>

record raw_result =
  col_names :: "string list"
  records :: "pyval list list"

definition left_join :: "'a list \<Rightarrow> 'b list \<Rightarrow> ('a \<Rightarrow> 'b \<Rightarrow> bool) \<Rightarrow> ('a \<times> 'b option) list" where
  "left_join xs ys on =
     concat (map (\<lambda>x. case filter (on x) ys of
                         [] \<Rightarrow> [(x, None)]
                       | m # ms \<Rightarrow> map (\<lambda>y. (x, Some y)) (m # ms)) xs)"

text \<open>
  The query of \<^verbatim>\<open>get_schema_description\<close> (lines 71 to 83) with \<^verbatim>\<open>%(schema)s\<close> bound.
  A class without a namespace partner has a null \<open>nspname\<close> and fails the \<^verbatim>\<open>WHERE\<close>
  comparison.
\<close>

definition list_tables_query :: "database \<Rightarrow> string \<Rightarrow> raw_result" where
  "list_tables_query d schema =
     (let cn = left_join (pg_class d) (pg_namespace d) (\<lambda>c n. nsp_oid n = relnamespace c);
          cnd = left_join cn (pg_description d)
                  (\<lambda>(c, n) dsc. objoid dsc = oid c \<and> objsubid dsc = 0);
          selected = concat (map (\<lambda>((c, n), dsc).
                       case n of
                         None \<Rightarrow> []
                       | Some n' \<Rightarrow>
                           if relkind c = CHR ''r'' \<and> nspname n' = schema
                           then [(nspname n', relname c, map_option description dsc)]
                           else []) cnd);
          ordered = sort_key (\<lambda>(s, t, dsc). (s, t)) selected
      in \<lparr>col_names = [''schema_name'', ''table_name'', ''table_description''],
          records = map (\<lambda>(s, t, dsc). [PStr s, PStr t, dump_optional PStr dsc]) ordered\<rparr>)"

text \<open>
  The query of \<^verbatim>\<open>get_table_description\<close> (lines 125 to 141) with both parameters
  bound.
\<close>

definition describe_table_query :: "database \<Rightarrow> string \<Rightarrow> string \<Rightarrow> raw_result" where
  "describe_table_query d schema table =
     (let selected = filter (\<lambda>r. col_table_schema r = schema \<and> col_table_name r = table)
                       (information_schema_columns d);
          ordered = sort_key ordinal_position selected
      in \<lparr>col_names = [''column_name'', ''data_type'', ''is_nullable'', ''column_default'',
                       ''character_maximum_length'', ''numeric_precision'', ''numeric_scale''],
          records = map (\<lambda>r. [PStr (col_column_name r), PStr (col_data_type r),
                               PStr (col_is_nullable r),
                               dump_optional PStr (col_column_default r),
                               dump_optional PInt (col_character_maximum_length r),
                               dump_optional PInt (col_numeric_precision r),
                               dump_optional PInt (col_numeric_scale r)]) ordered\<rparr>)"

section \<open>Connections\<close>

text \<open>
  A connection is a mutable object that several places refer to (the lifespan context
  and every request handler), so connections live in a store and are named by their
  address. A statement is what the server does with it: it fails with an error, or it
  leaves a new database state and, for a statement that returns rows, a result.
\<close>

record connection =
  closed :: bool
  factory :: row_factory

record world =
  database :: database
  heap :: "nat \<Rightarrow> connection option"
  next_id :: nat

type_synonym statement = "database \<Rightarrow> error + (raw_result option \<times> database)"

text \<open>
  \<^verbatim>\<open>psycopg.connect(..., row_factory=rf)\<close>: a new open connection, or
  \<^verbatim>\<open>OperationalError\<close> when the server cannot be reached.
\<close>

definition connect :: "row_factory \<Rightarrow> world \<Rightarrow> (error + nat) \<times> world" where
  "connect rf w =
     (if reachable (database w)
      then (Inr (next_id w),
            w\<lparr>heap := (heap w)(next_id w \<mapsto> \<lparr>closed = False, factory = rf\<rparr>),
              next_id := Suc (next_id w)\<rparr>)
      else (Inl OperationalError, w))"

text \<open>\<^verbatim>\<open>conn.close()\<close>; closing a closed connection does nothing.\<close>

definition close :: "nat \<Rightarrow> world \<Rightarrow> world" where
  "close h w =
     (case heap w h of
        None \<Rightarrow> w
      | Some c \<Rightarrow> w\<lparr>heap := (heap w)(h \<mapsto> c\<lparr>closed := True\<rparr>)\<rparr>)"

definition is_open :: "world \<Rightarrow> nat \<Rightarrow> bool" where
  "is_open w h = (case heap w h of None \<Rightarrow> False | Some c \<Rightarrow> \<not> closed c)"

text \<open>\<^verbatim>\<open>cursor.fetchall()\<close>: every record, shaped by the connection's row factory.\<close>

fun make_row :: "row_factory \<Rightarrow> string list \<Rightarrow> pyval list \<Rightarrow> row" where
  "make_row tuple_row names vals = TupleRow vals"
| "make_row dict_row names vals = DictRow (dict_of [] (zip names vals))"

definition fetchall :: "row_factory \<Rightarrow> raw_result \<Rightarrow> row list" where
  "fetchall rf res = map (make_row rf (col_names res)) (records res)"

text \<open>
  The block all three handlers share:
  \<^verbatim>\<open>with db_connection as conn:\<close>
  \<^verbatim>\<open>    with conn.cursor() as cursor:\<close>
  \<^verbatim>\<open>        cursor.execute(...)\<close>
  \<^verbatim>\<open>        rows = cursor.fetchall()\<close>

  \<^verbatim>\<open>conn.cursor()\<close> raises \<^verbatim>\<open>OperationalError\<close> on a closed connection.
  \<^verbatim>\<open>fetchall\<close> raises \<^verbatim>\<open>ProgrammingError\<close> when the statement produced no result.
  Leaving the connection's \<^verbatim>\<open>with\<close> block does what psycopg 3 documents for
  \<^verbatim>\<open>Connection.__exit__\<close>: nothing on a connection that is already closed; otherwise
  the transaction is committed, or rolled back when an exception is passing through,
  and then the connection is closed.
\<close>

definition execute_fetchall :: "statement \<Rightarrow> nat \<Rightarrow> world \<Rightarrow> (error + row list) \<times> world" where
  "execute_fetchall stmt h w =
     (case heap w h of
        None \<Rightarrow> (Inl OperationalError, w)
      | Some c \<Rightarrow>
          if closed c then (Inl OperationalError, w)
          else (case stmt (database w) of
                  Inl e \<Rightarrow> (Inl e, close h w)
                | Inr (None, d') \<Rightarrow> (Inl ProgrammingError, close h w)
                | Inr (Some res, d') \<Rightarrow>
                    (Inr (fetchall (factory c) res), close h (w\<lparr>database := d'\<rparr>))))"

section \<open>The handlers of \<^verbatim>\<open>main.py\<close>\<close>

text \<open>
  \<^verbatim>\<open>yaml.dump\<close> is the serializer of another library; the handlers take it as the
  parameter \<open>yaml_dump\<close>. The two catalog queries read relations every role may read; as
  statements they return their rows and leave the database as it is.
\<close>

record AppContext =
  db_connection :: nat

text \<open>\<^verbatim>\<open>app_lifespan\<close>: up to the \<^verbatim>\<open>yield\<close>, and the \<^verbatim>\<open>finally\<close> after it.\<close>

definition app_lifespan_enter :: "world \<Rightarrow> (error + AppContext) \<times> world" where
  "app_lifespan_enter w =
     (case connect dict_row w of
        (Inl e, w1) \<Rightarrow> (Inl e, w1)
      | (Inr h, w1) \<Rightarrow> (Inr \<lparr>db_connection = h\<rparr>, w1))"

definition app_lifespan_exit :: "AppContext \<Rightarrow> world \<Rightarrow> world" where
  "app_lifespan_exit ctx w = close (db_connection ctx) w"

text \<open>Lines 62 to 86 of \<^verbatim>\<open>get_schema_description\<close>: connect, query, fetch, close.\<close>

definition fetch_tables :: "string \<Rightarrow> world \<Rightarrow> (error + row list) \<times> world" where
  "fetch_tables schema w =
     (case connect tuple_row w of
        (Inl e, w1) \<Rightarrow> (Inl e, w1)
      | (Inr h, w1) \<Rightarrow>
          (case execute_fetchall (\<lambda>d. Inr (Some (list_tables_query d schema), d)) h w1 of
             (Inl e, w2) \<Rightarrow> (Inl e, w2)
           | (Inr rows, w2) \<Rightarrow> (Inr rows, close h w2)))"

definition get_schema_description ::
    "validators \<Rightarrow> (pyval \<Rightarrow> string) \<Rightarrow> string \<Rightarrow> world \<Rightarrow> (error + string) \<times> world" where
  "get_schema_description V yaml_dump schema w =
     (case fetch_tables schema w of
        (Inl e, w1) \<Rightarrow> (Inl e, w1)
      | (Inr rows, w1) \<Rightarrow>
          (bind (make_DatabaseSummary V rows)
             (\<lambda>db_summary. Inr (yaml_dump (DatabaseSummary_model_dump db_summary))), w1))"

text \<open>Lines 116 to 144 of \<^verbatim>\<open>get_table_description\<close>.\<close>

definition fetch_columns :: "string \<Rightarrow> string \<Rightarrow> world \<Rightarrow> (error + row list) \<times> world" where
  "fetch_columns schema table w =
     (case connect tuple_row w of
        (Inl e, w1) \<Rightarrow> (Inl e, w1)
      | (Inr h, w1) \<Rightarrow>
          (case execute_fetchall (\<lambda>d. Inr (Some (describe_table_query d schema table), d)) h w1 of
             (Inl e, w2) \<Rightarrow> (Inl e, w2)
           | (Inr rows, w2) \<Rightarrow> (Inr rows, close h w2)))"

definition get_table_description ::
    "validators \<Rightarrow> (pyval \<Rightarrow> string) \<Rightarrow> string \<Rightarrow> string \<Rightarrow> world \<Rightarrow> (error + string) \<times> world" where
  "get_table_description V yaml_dump schema table w =
     (case fetch_columns schema table w of
        (Inl e, w1) \<Rightarrow> (Inl e, w1)
      | (Inr rows, w1) \<Rightarrow>
          (bind (make_Table V schema table rows)
             (\<lambda>table_obj. Inr (yaml_dump (Table_model_dump table_obj))), w1))"

text \<open>
  \<^verbatim>\<open>query_database\<close>: the connection is the one of the lifespan context; \<open>run\<close> is the
  server's reading of SQL text.
\<close>

definition query_database ::
    "(string \<Rightarrow> statement) \<Rightarrow> (pyval \<Rightarrow> string) \<Rightarrow> string \<Rightarrow> AppContext \<Rightarrow> world
       \<Rightarrow> (error + string) \<times> world" where
  "query_database run yaml_dump query ctx w =
     (case execute_fetchall (run query) (db_connection ctx) w of
        (Inl e, w1) \<Rightarrow> (Inl e, w1)
      | (Inr rows, w1) \<Rightarrow>
          (bind (process_rows rows)
             (\<lambda>processed_rows. Inr (yaml_dump (PList (map PDict processed_rows)))), w1))"

text \<open>
  One external session: the lifespan is entered, the tool is called once per query
  with the same context, and the lifespan is left.
\<close>

fun call_tool ::
    "(string \<Rightarrow> statement) \<Rightarrow> (pyval \<Rightarrow> string) \<Rightarrow> AppContext \<Rightarrow> string list \<Rightarrow> world
       \<Rightarrow> (error + string) list \<times> world" where
  "call_tool run yaml_dump ctx [] w = ([], w)"
| "call_tool run yaml_dump ctx (q # qs) w =
     (case query_database run yaml_dump q ctx w of
        (r, w1) \<Rightarrow> (case call_tool run yaml_dump ctx qs w1 of (rs, w2) \<Rightarrow> (r # rs, w2)))"

definition session ::
    "(string \<Rightarrow> statement) \<Rightarrow> (pyval \<Rightarrow> string) \<Rightarrow> string list \<Rightarrow> world
       \<Rightarrow> (error + (error + string) list) \<times> world" where
  "session run yaml_dump qs w =
     (case app_lifespan_enter w of
        (Inl e, w1) \<Rightarrow> (Inl e, w1)
      | (Inr ctx, w1) \<Rightarrow>
          (case call_tool run yaml_dump ctx qs w1 of
             (rs, w2) \<Rightarrow> (Inr rs, app_lifespan_exit ctx w2)))"

section \<open>A database and libraries to evaluate on\<close>

text \<open>
  Validators that accept a value of the annotated type, and read the catalog's
  \<^verbatim>\<open>'YES'\<close> and \<^verbatim>\<open>'NO'\<close> as booleans.
\<close>

definition typed_validators :: validators where
  "typed_validators =
     \<lparr>validate_str = (\<lambda>v. case v of PStr s \<Rightarrow> Inr s | _ \<Rightarrow> Inl ValidationError),
      validate_bool = (\<lambda>v. case v of
                         PBool b \<Rightarrow> Inr b
                       | PStr s \<Rightarrow> if s = ''YES'' then Inr True
                                   else if s = ''NO'' then Inr False
                                   else Inl ValidationError
                       | _ \<Rightarrow> Inl ValidationError),
      validate_int = (\<lambda>v. case v of PInt i \<Rightarrow> Inr i | _ \<Rightarrow> Inl ValidationError)\<rparr>"

text \<open>A serializer: the value in flow style, keys and items in the order given.\<close>

function decimal :: "nat \<Rightarrow> string" where
  "decimal n =
     (if n < 10 then [''0123456789'' ! n]
      else decimal (n div 10) @ [''0123456789'' ! (n mod 10)])"
  by pat_completeness auto
termination
  by (relation "measure id") auto

declare decimal.simps [simp del]

fun flow_style :: "pyval \<Rightarrow> string" where
  "flow_style PNone = ''null''"
| "flow_style (PBool b) = (if b then ''true'' else ''false'')"
| "flow_style (PInt i) = (if i < 0 then ''-'' else []) @ decimal (nat \<bar>i\<bar>)"
| "flow_style (PStr s) = s"
| "flow_style (PUuid u) = str_uuid u"
| "flow_style (PList xs) = ''['' @ concat (map (\<lambda>x. flow_style x @ '', '') xs) @ '']''"
| "flow_style (PDict kvs) =
     ''{'' @ concat (map (\<lambda>kv. fst kv @ '': '' @ flow_style (snd kv) @ '', '') kvs) @ ''}''"

text \<open>
  The specification's scenario: schema \<open>public\<close> with the table
  \<open>users(id uuid, name text, age int)\<close> and the comment \<open>Application users\<close>.
\<close>

definition demo_database :: database where
  "demo_database =
     \<lparr>reachable = True,
      pg_class = [\<lparr>oid = 16385, relname = ''users'', relnamespace = 2200, relkind = CHR ''r''\<rparr>,
                  \<lparr>oid = 16390, relname = ''users_pkey'', relnamespace = 2200, relkind = CHR ''i''\<rparr>,
                  \<lparr>oid = 1259, relname = ''pg_class'', relnamespace = 11, relkind = CHR ''r''\<rparr>],
      pg_namespace = [\<lparr>nsp_oid = 11, nspname = ''pg_catalog''\<rparr>,
                      \<lparr>nsp_oid = 2200, nspname = ''public''\<rparr>],
      pg_description = [\<lparr>objoid = 16385, objsubid = 0, description = ''Application users''\<rparr>,
                        \<lparr>objoid = 16385, objsubid = 2, description = ''Display name''\<rparr>],
      information_schema_columns =
        [\<lparr>col_table_schema = ''public'', col_table_name = ''users'', ordinal_position = 2,
          col_column_name = ''name'', col_data_type = ''text'', col_is_nullable = ''YES'',
          col_column_default = None, col_character_maximum_length = None,
          col_numeric_precision = None, col_numeric_scale = None\<rparr>,
         \<lparr>col_table_schema = ''public'', col_table_name = ''users'', ordinal_position = 1,
          col_column_name = ''id'', col_data_type = ''uuid'', col_is_nullable = ''NO'',
          col_column_default = Some ''gen_random_uuid()'', col_character_maximum_length = None,
          col_numeric_precision = None, col_numeric_scale = None\<rparr>,
         \<lparr>col_table_schema = ''public'', col_table_name = ''users'', ordinal_position = 3,
          col_column_name = ''age'', col_data_type = ''integer'', col_is_nullable = ''YES'',
          col_column_default = None, col_character_maximum_length = None,
          col_numeric_precision = Some 32, col_numeric_scale = Some 0\<rparr>]\<rparr>"

definition demo_world :: world where
  "demo_world = \<lparr>database = demo_database, heap = (\<lambda>h. None), next_id = 0\<rparr>"

text \<open>
  A server that understands one statement, the scenario's
  \<^verbatim>\<open>SELECT id FROM users LIMIT 1\<close>, and answers every other text with a syntax error.
\<close>

definition demo_run :: "string \<Rightarrow> statement" where
  "demo_run query d =
     (if query = ''SELECT id FROM users LIMIT 1''
      then Inr (Some \<lparr>col_names = [''id''],
                      records = [[PUuid 0xa1b2c3d4e5f647890abcdef012345678]]\<rparr>, d)
      else Inl (DatabaseError ''syntax error''))"

section \<open>Auxiliary facts\<close>

subsection \<open>Sequencing and list comprehensions\<close>

lemma comprehension_Inr_iff:
  "comprehension f xs = Inr ys \<longleftrightarrow>
     length ys = length xs \<and> (\<forall>i < length xs. f (xs ! i) = Inr (ys ! i))"
proof (induction xs arbitrary: ys)
  case Nil
  then show ?case by auto
next
  case (Cons x xs)
  show ?case
  proof (cases ys)
    case Nil
    then show ?thesis by (auto split: sum.splits)
  next
    case (Cons y ys')
    then show ?thesis
      using Cons.IH [of ys']
      by (auto simp: nth_Cons less_Suc_eq_0_disj split: sum.splits nat.splits)
  qed
qed

lemma bind_Inl [simp]: "bind (Inl e) f = Inl e"
  by (simp add: bind_def)

lemma bind_Inr [simp]: "bind (Inr x) f = f x"
  by (simp add: bind_def)

lemma bind_eq_Inr_iff: "bind m f = Inr y \<longleftrightarrow> (\<exists>x. m = Inr x \<and> f x = Inr y)"
  by (cases m) simp_all

subsection \<open>What the handlers fetch\<close>

lemma make_row_tuple_row: "map (make_row tuple_row names) recs = map TupleRow recs"
  by (induction recs) simp_all

lemma fetch_columns_reachable:
  assumes "reachable (database w)"
  shows "fst (fetch_columns schema table w) =
           Inr (map TupleRow (records (describe_table_query (database w) schema table)))"
  using assms
  by (simp add: fetch_columns_def connect_def execute_fetchall_def fetchall_def
      make_row_tuple_row)

lemma fetch_columns_unreachable:
  assumes "\<not> reachable (database w)"
  shows "fst (fetch_columns schema table w) = Inl OperationalError"
  using assms by (simp add: fetch_columns_def connect_def)

lemma fetch_tables_reachable:
  assumes "reachable (database w)"
  shows "fst (fetch_tables schema w) =
           Inr (map TupleRow (records (list_tables_query (database w) schema)))"
  using assms
  by (simp add: fetch_tables_def connect_def execute_fetchall_def fetchall_def
      make_row_tuple_row)

lemma fetch_tables_unreachable:
  assumes "\<not> reachable (database w)"
  shows "fst (fetch_tables schema w) = Inl OperationalError"
  using assms by (simp add: fetch_tables_def connect_def)

lemma get_table_description_fst:
  "fst (get_table_description V yaml_dump schema table w) =
     bind (fst (fetch_columns schema table w)) (\<lambda>rows.
     bind (make_Table V schema table rows) (\<lambda>table_obj.
     Inr (yaml_dump (Table_model_dump table_obj))))"
  by (simp add: get_table_description_def split: prod.splits sum.splits)

lemma get_schema_description_fst:
  "fst (get_schema_description V yaml_dump schema w) =
     bind (fst (fetch_tables schema w)) (\<lambda>rows.
     bind (make_DatabaseSummary V rows) (\<lambda>db_summary.
     Inr (yaml_dump (DatabaseSummary_model_dump db_summary))))"
  by (simp add: get_schema_description_def split: prod.splits sum.splits)

lemma database_close [simp]: "database (close h w) = database w"
  by (simp add: close_def split: option.splits)

lemma database_fetch_tables [simp]: "database (snd (fetch_tables schema w)) = database w"
  by (simp add: fetch_tables_def connect_def execute_fetchall_def)

lemma database_get_schema_description [simp]:
  "database (snd (get_schema_description V yaml_dump schema w)) = database w"
proof -
  have "snd (get_schema_description V yaml_dump schema w) = snd (fetch_tables schema w)"
    by (simp add: get_schema_description_def split: prod.splits sum.splits)
  then show ?thesis by simp
qed

lemma make_TableSummary_tuple:
  "make_TableSummary V (TupleRow [a0, a1, a2]) =
     bind (validate_str V a0) (\<lambda>s.
     bind (validate_str V a1) (\<lambda>n.
     bind (validate_optional (validate_str V) a2) (\<lambda>d.
     Inr \<lparr>summary_schema_name = s, summary_table_name = n, table_description = d\<rparr>)))"
  by (simp add: make_TableSummary_def)

lemma make_Column_tuple:
  "make_Column V (TupleRow [a0, a1, a2, a3, a4, a5, a6]) =
     bind (validate_str V a0) (\<lambda>cn.
     bind (validate_str V a1) (\<lambda>dt.
     bind (validate_bool V a2) (\<lambda>nl.
     bind (validate_optional (validate_str V) a3) (\<lambda>cd.
     bind (validate_optional (validate_int V) a4) (\<lambda>ml.
     bind (validate_optional (validate_int V) a5) (\<lambda>np.
     bind (validate_optional (validate_int V) a6) (\<lambda>ns.
     Inr \<lparr>column_name = cn, data_type = dt, is_nullable = nl, column_default = cd,
          character_maximum_length = ml, numeric_precision = np,
          numeric_scale = ns\<rparr>)))))))"
  by (simp add: make_Column_def)

subsection \<open>The catalog query without a matching namespace\<close>

lemma left_join_member:
  assumes "p \<in> set (left_join xs ys on)"
  shows "fst p \<in> set xs \<and> (\<forall>y. snd p = Some y \<longrightarrow> y \<in> set ys \<and> on (fst p) y)"
proof -
  from assms obtain x where x: "x \<in> set xs"
    and p: "p \<in> set (case filter (on x) ys of
                       [] \<Rightarrow> [(x, None)]
                     | m # ms \<Rightarrow> map (\<lambda>y. (x, Some y)) (m # ms))"
    by (auto simp: left_join_def)
  show ?thesis
  proof (cases "filter (on x) ys")
    case Nil
    with p x show ?thesis by simp
  next
    case (Cons m ms)
    with p obtain y where "y \<in> set (filter (on x) ys)" and "p = (x, Some y)"
      by auto
    with x show ?thesis by simp
  qed
qed

lemma list_tables_query_no_schema:
  assumes "\<forall>n \<in> set (pg_namespace d). nspname n \<noteq> schema"
  shows "records (list_tables_query d schema) = []"
proof -
  let ?cn = "left_join (pg_class d) (pg_namespace d) (\<lambda>c n. nsp_oid n = relnamespace c)"
  let ?cnd = "left_join ?cn (pg_description d)
                (\<lambda>(c, n) dsc. objoid dsc = oid c \<and> objsubid dsc = 0)"
  let ?pick = "\<lambda>((c, n), dsc).
                case n of
                  None \<Rightarrow> []
                | Some n' \<Rightarrow>
                    if relkind c = CHR ''r'' \<and> nspname n' = schema
                    then [(nspname n', relname c, map_option description dsc)]
                    else []"
  have sel: "?pick x = []" if "x \<in> set ?cnd" for x
  proof -
    obtain c n dsc where x: "x = ((c, n), dsc)"
      by (metis surj_pair)
    show ?thesis
    proof (cases n)
      case None
      then show ?thesis by (simp add: x)
    next
      case (Some n')
      have "(c, Some n') \<in> set ?cn"
        using left_join_member [OF that] by (simp add: x Some)
      then have "n' \<in> set (pg_namespace d)"
        using left_join_member by fastforce
      with assms have "nspname n' \<noteq> schema" by blast
      then show ?thesis by (simp add: x Some)
    qed
  qed
  have none: "concat (map ?pick ?cnd) = []"
    unfolding concat_eq_Nil_conv using sel by auto
  show ?thesis
    unfolding list_tables_query_def Let_def none by simp
qed

subsection \<open>Dicts and the normalisation loops\<close>

lemma dict_setitem_fresh:
  "k \<notin> fst ` set d \<Longrightarrow> dict_setitem d k v = d @ [(k, v)]"
  by (induction d) auto

lemma keys_dict_setitem:
  "fst ` set (dict_setitem d k v) = insert k (fst ` set d)"
proof (induction d)
  case Nil
  show ?case by simp
next
  case (Cons p d)
  obtain k' v' where p: "p = (k', v')" by (cases p)
  show ?case
  proof (cases "k' = k")
    case True
    then show ?thesis by (simp add: p)
  next
    case False
    then show ?thesis using Cons.IH by (simp add: p insert_commute)
  qed
qed

lemma distinct_dict_setitem:
  "distinct (map fst d) \<Longrightarrow> distinct (map fst (dict_setitem d k v))"
proof (induction d)
  case Nil
  show ?case by simp
next
  case (Cons p d)
  obtain k' v' where p: "p = (k', v')" by (cases p)
  show ?case
  proof (cases "k' = k")
    case True
    then show ?thesis using Cons.prems by (simp add: p)
  next
    case False
    then show ?thesis using Cons by (simp add: p keys_dict_setitem)
  qed
qed

lemma distinct_dict_of:
  "distinct (map fst d) \<Longrightarrow> distinct (map fst (dict_of d kvs))"
  by (induction d kvs rule: dict_of.induct) (simp_all add: distinct_dict_setitem)

lemma process_step:
  "(case val of PUuid u \<Rightarrow> dict_setitem d key (PStr (str_uuid u)) | _ \<Rightarrow> dict_setitem d key val)
     = dict_setitem d key (normalize_value val)"
  by (cases val) (simp_all add: normalize_value_def)

lemma process_items_distinct:
  assumes "distinct (map fst kvs)" and "fst ` set kvs \<inter> fst ` set acc = {}"
  shows "process_items acc kvs = acc @ map (\<lambda>(k, v). (k, normalize_value v)) kvs"
  using assms
proof (induction kvs arbitrary: acc)
  case Nil
  then show ?case by simp
next
  case (Cons kv kvs)
  obtain k v where kv: "kv = (k, v)" by (cases kv)
  have fresh: "k \<notin> fst ` set acc"
    using Cons.prems(2) by (auto simp: kv)
  have step: "dict_setitem acc k (normalize_value v) = acc @ [(k, normalize_value v)]"
    using fresh by (rule dict_setitem_fresh)
  have "fst ` set kvs \<inter> fst ` set (acc @ [(k, normalize_value v)]) = {}"
    using Cons.prems by (auto simp: kv)
  then have "process_items (acc @ [(k, normalize_value v)]) kvs =
               (acc @ [(k, normalize_value v)]) @ map (\<lambda>(k, v). (k, normalize_value v)) kvs"
    using Cons.IH Cons.prems(1) by simp
  then show ?case
    by (simp add: kv process_step step)
qed

lemma process_rows_loop_dicts:
  assumes "\<forall>d \<in> set ds. distinct (map fst d)"
  shows "process_rows_loop acc (map DictRow ds) = Inr (acc @ normalize_spec ds)"
  using assms
proof (induction ds arbitrary: acc)
  case Nil
  then show ?case by (simp add: normalize_spec_def)
next
  case (Cons d ds)
  have "process_items [] d = map (\<lambda>(k, v). (k, normalize_value v)) d"
    using Cons.prems process_items_distinct [of d "[]"] by simp
  then show ?case
    using Cons.IH [of "acc @ [map (\<lambda>(k, v). (k, normalize_value v)) d]"] Cons.prems
    by (simp add: normalize_spec_def)
qed

lemma fetchall_dict_row:
  "fetchall dict_row res =
     map DictRow (map (\<lambda>vals. dict_of [] (zip (col_names res) vals)) (records res))"
  by (simp add: fetchall_def)

lemma process_rows_fetchall:
  "process_rows (fetchall dict_row res) =
     Inr (normalize_spec (map (\<lambda>vals. dict_of [] (zip (col_names res) vals)) (records res)))"
proof -
  have "\<forall>d \<in> set (map (\<lambda>vals. dict_of [] (zip (col_names res) vals)) (records res)).
          distinct (map fst d)"
    by (auto intro: distinct_dict_of)
  from process_rows_loop_dicts [OF this, of "[]"] show ?thesis
    by (simp add: process_rows_def fetchall_dict_row)
qed

lemma process_rows_tuples:
  "process_rows (map TupleRow recs) = (if recs = [] then Inr [] else Inl AttributeError)"
  by (cases recs) (simp_all add: process_rows_def)

subsection \<open>The session connection\<close>

lemma query_database_fst:
  "fst (query_database run yaml_dump query ctx w) =
     bind (fst (execute_fetchall (run query) (db_connection ctx) w)) (\<lambda>rows.
     bind (process_rows rows) (\<lambda>processed_rows.
     Inr (yaml_dump (PList (map PDict processed_rows)))))"
  by (simp add: query_database_def split: prod.splits sum.splits)

lemma query_database_snd:
  "snd (query_database run yaml_dump query ctx w) =
     snd (execute_fetchall (run query) (db_connection ctx) w)"
  by (simp add: query_database_def split: prod.splits sum.splits)

lemma is_open_close [simp]: "\<not> is_open (close h w) h"
  by (simp add: is_open_def close_def split: option.splits)

lemma query_database_closes:
  "\<not> is_open (snd (query_database run yaml_dump query ctx w)) (db_connection ctx)"
  by (simp add: query_database_snd execute_fetchall_def is_open_def close_def
      split: option.splits sum.splits prod.splits)

lemma query_database_on_closed:
  assumes "\<not> is_open w (db_connection ctx)"
  shows "query_database run yaml_dump query ctx w = (Inl OperationalError, w)"
  using assms
  by (simp add: query_database_def execute_fetchall_def is_open_def split: option.splits)

lemma second_call_fails:
  "fst (query_database run yaml_dump q2 ctx
          (snd (query_database run yaml_dump q1 ctx w))) = Inl OperationalError"
  by (simp add: query_database_on_closed query_database_closes)

lemma app_lifespan_enter_reachable:
  assumes "reachable (database w)"
  shows "fst (app_lifespan_enter w) = Inr \<lparr>db_connection = next_id w\<rparr>"
    and "heap (snd (app_lifespan_enter w)) (next_id w) = Some \<lparr>closed = False, factory = dict_row\<rparr>"
    and "database (snd (app_lifespan_enter w)) = database w"
  using assms by (simp_all add: app_lifespan_enter_def connect_def)

lemma session_fst:
  "fst (session run yaml_dump qs w) =
     (case fst (app_lifespan_enter w) of
        Inl e \<Rightarrow> Inl e
      | Inr ctx \<Rightarrow> Inr (fst (call_tool run yaml_dump ctx qs (snd (app_lifespan_enter w)))))"
  by (simp add: session_def split: prod.splits sum.splits)

lemma call_tool_fst:
  "fst (call_tool run yaml_dump ctx (q # qs) w) =
     fst (query_database run yaml_dump q ctx w) #
     fst (call_tool run yaml_dump ctx qs (snd (query_database run yaml_dump q ctx w)))"
  by (simp split: prod.splits)

subsection \<open>The example database, evaluated\<close>

lemma demo_world_simps:
  "reachable demo_database" "database demo_world = demo_database"
  "next_id demo_world = 0" "heap demo_world = (\<lambda>h. None)"
  by (simp_all add: demo_world_def demo_database_def)

lemma demo_columns:
  "records (describe_table_query demo_database ''public'' ''users'') =
     [[PStr ''id'', PStr ''uuid'', PStr ''NO'', PStr ''gen_random_uuid()'', PNone, PNone, PNone],
      [PStr ''name'', PStr ''text'', PStr ''YES'', PNone, PNone, PNone, PNone],
      [PStr ''age'', PStr ''integer'', PStr ''YES'', PNone, PNone, PInt 32, PInt 0]]"
  by (simp add: describe_table_query_def demo_database_def dump_optional_def)

lemma demo_tables:
  "records (list_tables_query demo_database ''public'') =
     [[PStr ''public'', PStr ''users'', PStr ''Application users'']]"
  by (simp add: list_tables_query_def demo_database_def dump_optional_def left_join_def)

lemma hex_numeral: "hex (numeral k) n = hex (pred_numeral k) (n div 16) @ [hex_digit n]"
  using hex.simps(2) [of "pred_numeral k" n] by (simp only: numeral_eq_Suc [symmetric])

lemma demo_uuid:
  "str_uuid 0xa1b2c3d4e5f647890abcdef012345678 = ''a1b2c3d4-e5f6-4789-0abc-def012345678''"
  by (simp add: str_uuid_def hex_numeral hex_digit_def)

lemma demo_session_start:
  "fst (app_lifespan_enter demo_world) = Inr \<lparr>db_connection = 0\<rparr>"
  "heap (snd (app_lifespan_enter demo_world)) 0 = Some \<lparr>closed = False, factory = dict_row\<rparr>"
  "database (snd (app_lifespan_enter demo_world)) = demo_database"
  using app_lifespan_enter_reachable [of demo_world] by (simp_all add: demo_world_simps)

section \<open>The claims\<close>

text \<open>
  Claim C1 on the code: in a session with two calls of \<^verbatim>\<open>query_database\<close> the first
  call answers, and leaving its \<^verbatim>\<open>with db_connection\<close> block closes the session
  connection, so the second call raises \<^verbatim>\<open>OperationalError\<close>.
\<close>

theorem session_second_query_fails:
  "fst (session demo_run flow_style
          [''SELECT id FROM users LIMIT 1'', ''SELECT id FROM users LIMIT 1''] demo_world) =
     Inr [Inr ''[{id: a1b2c3d4-e5f6-4789-0abc-def012345678, }, ]'', Inl OperationalError]"
proof -
  let ?w = "snd (app_lifespan_enter demo_world)"
  let ?ctx = "\<lparr>db_connection = 0\<rparr>"
  let ?q = "''SELECT id FROM users LIMIT 1''"
  have first: "fst (query_database demo_run flow_style ?q ?ctx ?w) =
     Inr ''[{id: a1b2c3d4-e5f6-4789-0abc-def012345678, }, ]''"
    by (simp add: query_database_fst execute_fetchall_def demo_session_start demo_run_def
        process_rows_fetchall normalize_spec_def normalize_value_def demo_uuid)
  have second: "fst (query_database demo_run flow_style ?q ?ctx
                  (snd (query_database demo_run flow_style ?q ?ctx ?w))) = Inl OperationalError"
    by (rule second_call_fails)
  show ?thesis
    by (simp only: session_fst call_tool_fst demo_session_start(1) first second
        call_tool.simps(1) sum.case fst_conv)
qed

text \<open>
  Claim C2, as the code has it. Only the connection of \<^verbatim>\<open>app_lifespan\<close> is opened
  with the \<^verbatim>\<open>dict_row\<close> factory: its rows are dicts keyed by column name, and
  \<^verbatim>\<open>query_database\<close> reads them through \<^verbatim>\<open>items()\<close>, which a tuple does not have.
  The connections of \<^verbatim>\<open>get_schema_description\<close> and \<^verbatim>\<open>get_table_description\<close>
  deliver positional tuples, and the mapping into \<^verbatim>\<open>TableSummary\<close> and \<^verbatim>\<open>Column\<close>
  reads positions 0 to 2 and 0 to 6; on a name-keyed row it raises \<^verbatim>\<open>KeyError\<close>.
\<close>

theorem rows_by_name_only_in_session:
  "(reachable (database w) \<longrightarrow>
      fst (app_lifespan_enter w) = Inr \<lparr>db_connection = next_id w\<rparr> \<and>
      heap (snd (app_lifespan_enter w)) (next_id w) =
        Some \<lparr>closed = False, factory = dict_row\<rparr> \<and>
      fst (fetch_tables schema w) =
        Inr (map TupleRow (records (list_tables_query (database w) schema))) \<and>
      fst (fetch_columns schema table w) =
        Inr (map TupleRow (records (describe_table_query (database w) schema table)))) \<and>
   fetchall dict_row res =
     map (\<lambda>vals. DictRow (dict_of [] (zip (col_names res) vals))) (records res) \<and>
   process_rows [DictRow []] = Inr [[]] \<and>
   process_rows [TupleRow vs] = Inl AttributeError \<and>
   make_TableSummary V (TupleRow [a0, a1, a2]) =
     bind (validate_str V a0) (\<lambda>s.
     bind (validate_str V a1) (\<lambda>n.
     bind (validate_optional (validate_str V) a2) (\<lambda>d.
     Inr \<lparr>summary_schema_name = s, summary_table_name = n, table_description = d\<rparr>))) \<and>
   make_Column V (TupleRow [a0, a1, a2, a3, a4, a5, a6]) =
     bind (validate_str V a0) (\<lambda>cn.
     bind (validate_str V a1) (\<lambda>dt.
     bind (validate_bool V a2) (\<lambda>nl.
     bind (validate_optional (validate_str V) a3) (\<lambda>cd.
     bind (validate_optional (validate_int V) a4) (\<lambda>ml.
     bind (validate_optional (validate_int V) a5) (\<lambda>np.
     bind (validate_optional (validate_int V) a6) (\<lambda>ns.
     Inr \<lparr>column_name = cn, data_type = dt, is_nullable = nl, column_default = cd,
          character_maximum_length = ml, numeric_precision = np,
          numeric_scale = ns\<rparr>))))))) \<and>
   make_TableSummary V (DictRow d) = Inl KeyError \<and>
   make_Column V (DictRow d) = Inl KeyError"
proof -
  have "process_rows [TupleRow vs] = Inl AttributeError" "process_rows [DictRow []] = Inr [[]]"
    by (simp_all add: process_rows_def)
  moreover have "make_TableSummary V (DictRow d) = Inl KeyError"
    "make_Column V (DictRow d) = Inl KeyError"
    by (simp_all add: make_TableSummary_def make_Column_def)
  moreover have "fetchall dict_row res =
     map (\<lambda>vals. DictRow (dict_of [] (zip (col_names res) vals))) (records res)"
    by (simp add: fetchall_def)
  ultimately show ?thesis
    using make_TableSummary_tuple make_Column_tuple
    by (simp add: app_lifespan_enter_reachable fetch_tables_reachable fetch_columns_reachable)
qed

theorem rows_by_name_only_in_session_witness:
  "fst (app_lifespan_enter demo_world) = Inr \<lparr>db_connection = 0\<rparr> \<and>
   heap (snd (app_lifespan_enter demo_world)) 0 =
     Some \<lparr>closed = False, factory = dict_row\<rparr> \<and>
   fst (fetch_tables ''public'' demo_world) =
     Inr [TupleRow [PStr ''public'', PStr ''users'', PStr ''Application users'']] \<and>
   fst (fetch_columns ''public'' ''users'' demo_world) =
     Inr [TupleRow [PStr ''id'', PStr ''uuid'', PStr ''NO'', PStr ''gen_random_uuid()'',
                    PNone, PNone, PNone],
          TupleRow [PStr ''name'', PStr ''text'', PStr ''YES'', PNone, PNone, PNone, PNone],
          TupleRow [PStr ''age'', PStr ''integer'', PStr ''YES'', PNone, PNone,
                    PInt 32, PInt 0]]"
  using rows_by_name_only_in_session [where w = demo_world and schema = "''public''"
      and table = "''users''", THEN conjunct1]
  by (simp add: demo_world_simps demo_tables demo_columns)

text \<open>
  Claim C2 as stated fails: the rows that \<^verbatim>\<open>get_schema_description\<close> fetches for the
  schema \<open>public\<close> of the example database are positional tuples, and the mapping step
  raises \<^verbatim>\<open>KeyError\<close> on the same row keyed by field name while it accepts the tuple.
\<close>

theorem introspection_rows_are_tuples:
  "fst (fetch_tables ''public'' demo_world) =
     Inr [TupleRow [PStr ''public'', PStr ''users'', PStr ''Application users'']] \<and>
   make_TableSummary typed_validators
     (DictRow [(''schema_name'', PStr ''public''), (''table_name'', PStr ''users''),
               (''table_description'', PStr ''Application users'')]) = Inl KeyError \<and>
   make_TableSummary typed_validators
     (TupleRow [PStr ''public'', PStr ''users'', PStr ''Application users'']) =
     Inr \<lparr>summary_schema_name = ''public'', summary_table_name = ''users'',
          table_description = Some ''Application users''\<rparr>"
proof -
  have "reachable (database demo_world)" "database demo_world = demo_database"
    by (simp_all add: demo_world_def demo_database_def)
  then have "fst (fetch_tables ''public'' demo_world) =
     Inr [TupleRow [PStr ''public'', PStr ''users'', PStr ''Application users'']]"
    by (simp add: fetch_tables_reachable demo_tables)
  then show ?thesis
    by (simp add: make_TableSummary_def typed_validators_def validate_optional_def)
qed

text \<open>
  Claim C3. When the columns view holds no row for the pair of schema and table (the
  table is absent or has no columns) and the server can be reached,
  \<^verbatim>\<open>get_table_description\<close> raises nothing and returns the serialized table with the
  empty column list.
\<close>

theorem describe_absent_table:
  assumes "reachable (database w)"
    and "\<forall>r \<in> set (information_schema_columns (database w)).
           col_table_schema r \<noteq> schema \<or> col_table_name r \<noteq> table"
  shows "fst (get_table_description V yaml_dump schema table w) =
           Inr (yaml_dump (Table_model_dump
                  \<lparr>schema_name = schema, table_name = table, columns = []\<rparr>))"
proof -
  have "filter (\<lambda>r. col_table_schema r = schema \<and> col_table_name r = table)
          (information_schema_columns (database w)) = []"
    using assms(2) by (auto simp: filter_empty_conv)
  then have "records (describe_table_query (database w) schema table) = []"
    by (simp add: describe_table_query_def)
  then show ?thesis
    using assms(1)
    by (simp add: get_table_description_fst fetch_columns_reachable make_Table_def)
qed

theorem describe_absent_table_witness:
  "fst (get_table_description typed_validators flow_style ''public'' ''orders'' demo_world) =
     Inr ''{schema_name: public, table_name: orders, columns: [], }''"
  using describe_absent_table [where w = demo_world and schema = "''public''"
      and table = "''orders''" and V = typed_validators and yaml_dump = flow_style]
  by (simp add: demo_world_simps demo_database_def Table_model_dump_def)

text \<open>
  Claim C4. When the catalog query yields no row for the schema, in particular when no
  namespace of that name exists, and the server can be reached,
  \<^verbatim>\<open>get_schema_description\<close> raises nothing and returns the serialized summary with
  the empty table list.
\<close>

theorem list_absent_schema:
  assumes "reachable (database w)"
    and "records (list_tables_query (database w) schema) = [] \<or>
         (\<forall>n \<in> set (pg_namespace (database w)). nspname n \<noteq> schema)"
  shows "fst (get_schema_description V yaml_dump schema w) =
           Inr (yaml_dump (DatabaseSummary_model_dump \<lparr>tables = []\<rparr>))"
proof -
  have "records (list_tables_query (database w) schema) = []"
    using assms(2) list_tables_query_no_schema by blast
  then show ?thesis
    using assms(1)
    by (simp add: get_schema_description_fst fetch_tables_reachable make_DatabaseSummary_def)
qed

theorem list_absent_schema_witness:
  "fst (get_schema_description typed_validators flow_style ''sales'' demo_world) =
     Inr ''{tables: [], }''"
  using list_absent_schema [where w = demo_world and schema = "''sales''"
      and V = typed_validators and yaml_dump = flow_style]
  by (simp add: demo_world_simps demo_database_def DatabaseSummary_model_dump_def)

text \<open>
  Claim C5. On an open connection with the \<^verbatim>\<open>dict_row\<close> factory and a statement
  that returns a result, \<^verbatim>\<open>query_database\<close> serializes the fetched dicts with every
  field normalized: a UUID has become its canonical text, any other value is the value
  fetched, and there are as many rows as records fetched.
\<close>

theorem normalizer_in_query_database:
  assumes "heap w (db_connection ctx) = Some \<lparr>closed = False, factory = dict_row\<rparr>"
    and "run query (database w) = Inr (Some res, d')"
  shows "fst (query_database run yaml_dump query ctx w) =
           Inr (yaml_dump (PList (map PDict (normalize_spec
                  (map (\<lambda>vals. dict_of [] (zip (col_names res) vals)) (records res)))))) \<and>
         length (normalize_spec
                  (map (\<lambda>vals. dict_of [] (zip (col_names res) vals)) (records res))) =
           length (records res) \<and>
         (\<forall>u. normalize_value (PUuid u) = PStr (str_uuid u)) \<and>
         (\<forall>v. (\<forall>u. v \<noteq> PUuid u) \<longrightarrow> normalize_value v = v)"
proof -
  have "fst (execute_fetchall (run query) (db_connection ctx) w) = Inr (fetchall dict_row res)"
    using assms by (simp add: execute_fetchall_def)
  then have "fst (query_database run yaml_dump query ctx w) =
           Inr (yaml_dump (PList (map PDict (normalize_spec
                  (map (\<lambda>vals. dict_of [] (zip (col_names res) vals)) (records res))))))"
    by (simp add: query_database_fst process_rows_fetchall)
  moreover have "\<forall>v. (\<forall>u. v \<noteq> PUuid u) \<longrightarrow> normalize_value v = v"
    by (auto simp: normalize_value_def split: pyval.splits)
  ultimately show ?thesis
    by (simp add: normalize_spec_def normalize_value_def)
qed

theorem normalizer_in_query_database_witness:
  "fst (query_database demo_run flow_style ''SELECT id FROM users LIMIT 1''
          \<lparr>db_connection = 0\<rparr> (snd (app_lifespan_enter demo_world))) =
     Inr ''[{id: a1b2c3d4-e5f6-4789-0abc-def012345678, }, ]''"
  using normalizer_in_query_database [where w = "snd (app_lifespan_enter demo_world)"
      and ctx = "\<lparr>db_connection = 0\<rparr>" and run = demo_run
      and query = "''SELECT id FROM users LIMIT 1''"
      and res = "\<lparr>col_names = [''id''],
                   records = [[PUuid 0xa1b2c3d4e5f647890abcdef012345678]]\<rparr>"
      and d' = demo_database and yaml_dump = flow_style]
  by (simp add: demo_session_start demo_run_def normalize_spec_def normalize_value_def demo_uuid)

text \<open>
  Claim C6. The mapping step of \<^verbatim>\<open>get_table_description\<close> keeps the order of the
  fetched rows: it yields a table exactly when every row yields a column, and then the
  table has as many columns as there are rows and its \<open>i\<close>-th column is the one built
  from the \<open>i\<close>-th row. Nothing is sorted, inserted or dropped.
\<close>

theorem make_Table_order:
  "make_Table V schema table rows = Inr t \<longleftrightarrow>
     schema_name t = schema \<and> table_name t = table \<and>
     length (columns t) = length rows \<and>
     (\<forall>i < length rows. make_Column V (rows ! i) = Inr (columns t ! i))"
proof -
  have "make_Table V schema table rows = Inr t \<longleftrightarrow>
          schema_name t = schema \<and> table_name t = table \<and>
          comprehension (make_Column V) rows = Inr (columns t)"
    by (cases "comprehension (make_Column V) rows") (auto simp: make_Table_def)
  then show ?thesis
    by (simp add: comprehension_Inr_iff)
qed

theorem make_Table_order_witness:
  "length (columns \<lparr>schema_name = ''public'', table_name = ''users'',
      columns = [\<lparr>column_name = ''id'', data_type = ''uuid'', is_nullable = False,
                  column_default = Some ''gen_random_uuid()'', character_maximum_length = None,
                  numeric_precision = None, numeric_scale = None\<rparr>,
                 \<lparr>column_name = ''age'', data_type = ''integer'', is_nullable = True,
                  column_default = None, character_maximum_length = None,
                  numeric_precision = Some 32, numeric_scale = Some 0\<rparr>]\<rparr>) = 2 \<and>
   make_Column typed_validators
     (TupleRow [PStr ''age'', PStr ''integer'', PStr ''YES'', PNone, PNone, PInt 32, PInt 0]) =
     Inr \<lparr>column_name = ''age'', data_type = ''integer'', is_nullable = True,
          column_default = None, character_maximum_length = None,
          numeric_precision = Some 32, numeric_scale = Some 0\<rparr>"
proof -
  let ?rows = "[TupleRow [PStr ''id'', PStr ''uuid'', PStr ''NO'', PStr ''gen_random_uuid()'',
                          PNone, PNone, PNone],
                TupleRow [PStr ''age'', PStr ''integer'', PStr ''YES'', PNone, PNone,
                          PInt 32, PInt 0]]"
  let ?t = "\<lparr>schema_name = ''public'', table_name = ''users'',
      columns = [\<lparr>column_name = ''id'', data_type = ''uuid'', is_nullable = False,
                  column_default = Some ''gen_random_uuid()'', character_maximum_length = None,
                  numeric_precision = None, numeric_scale = None\<rparr>,
                 \<lparr>column_name = ''age'', data_type = ''integer'', is_nullable = True,
                  column_default = None, character_maximum_length = None,
                  numeric_precision = Some 32, numeric_scale = Some 0\<rparr>]\<rparr>"
  have "make_Table typed_validators ''public'' ''users'' ?rows = Inr ?t"
    by (simp add: make_Table_def make_Column_def typed_validators_def validate_optional_def)
  from make_Table_order [THEN iffD1, OF this]
  have "length (columns ?t) = length ?rows"
    and "\<forall>i < length ?rows. make_Column typed_validators (?rows ! i) = Inr (columns ?t ! i)"
    by blast+
  from this(1) this(2) [rule_format, of 1] show ?thesis
    by simp
qed

text \<open>
  Claim C7. \<^verbatim>\<open>query_database\<close> has no partial results. When the server rejects the
  statement the call raises (the server's error on an open connection) and returns no
  text; and whenever the call returns a text, the statement succeeded and the text is
  the serialization of all its records, normalized.
\<close>

theorem no_partial_results:
  "(run query (database w) = Inl e \<longrightarrow>
      fst (query_database run yaml_dump query ctx w) =
        Inl (if is_open w (db_connection ctx) then e else OperationalError)) \<and>
   (fst (query_database run yaml_dump query ctx w) = Inr out \<longrightarrow>
      (\<exists>res d'. run query (database w) = Inr (Some res, d') \<and>
         out = yaml_dump (PList (map PDict (normalize_spec
                 (map (\<lambda>vals. dict_of [] (zip (col_names res) vals)) (records res)))))))"
proof (intro conjI impI)
  assume "run query (database w) = Inl e"
  then show "fst (query_database run yaml_dump query ctx w) =
               Inl (if is_open w (db_connection ctx) then e else OperationalError)"
    by (simp add: query_database_fst execute_fetchall_def is_open_def split: option.splits)
next
  assume ok: "fst (query_database run yaml_dump query ctx w) = Inr out"
  then obtain rows ps where rows: "fst (execute_fetchall (run query) (db_connection ctx) w) = Inr rows"
    and ps: "process_rows rows = Inr ps" and out: "out = yaml_dump (PList (map PDict ps))"
    by (auto simp: query_database_fst bind_eq_Inr_iff)
  from rows obtain c res d' where c: "heap w (db_connection ctx) = Some c"
    and run: "run query (database w) = Inr (Some res, d')"
    and fetched: "rows = fetchall (factory c) res"
    by (auto simp: execute_fetchall_def split: option.splits if_splits sum.splits prod.splits)
  have "ps = normalize_spec (map (\<lambda>vals. dict_of [] (zip (col_names res) vals)) (records res))"
  proof (cases "factory c")
    case tuple_row
    with ps fetched show ?thesis
      by (auto simp: fetchall_def make_row_tuple_row process_rows_tuples normalize_spec_def
          split: if_splits)
  next
    case dict_row
    with ps fetched show ?thesis
      by (simp add: process_rows_fetchall)
  qed
  with run out show "\<exists>res d'. run query (database w) = Inr (Some res, d') \<and>
         out = yaml_dump (PList (map PDict (normalize_spec
                 (map (\<lambda>vals. dict_of [] (zip (col_names res) vals)) (records res)))))"
    by blast
qed

theorem no_partial_results_witness:
  "fst (query_database demo_run flow_style ''SELEC * FROM users''
          \<lparr>db_connection = 0\<rparr> (snd (app_lifespan_enter demo_world))) =
     Inl (DatabaseError ''syntax error'') \<and>
   (\<exists>res d'. demo_run ''SELECT id FROM users LIMIT 1'' demo_database = Inr (Some res, d') \<and>
      ''[{id: a1b2c3d4-e5f6-4789-0abc-def012345678, }, ]'' =
        flow_style (PList (map PDict (normalize_spec
          (map (\<lambda>vals. dict_of [] (zip (col_names res) vals)) (records res))))))"
proof -
  let ?w = "snd (app_lifespan_enter demo_world)"
  let ?ctx = "\<lparr>db_connection = 0\<rparr>"
  have ok: "fst (query_database demo_run flow_style ''SELECT id FROM users LIMIT 1'' ?ctx ?w) =
     Inr ''[{id: a1b2c3d4-e5f6-4789-0abc-def012345678, }, ]''"
    by (simp add: query_database_fst execute_fetchall_def demo_session_start demo_run_def
        process_rows_fetchall normalize_spec_def normalize_value_def demo_uuid)
  have bad: "demo_run ''SELEC * FROM users'' (database ?w) = Inl (DatabaseError ''syntax error'')"
    by (simp add: demo_run_def)
  have "is_open ?w (db_connection ?ctx)"
    by (simp add: is_open_def demo_session_start)
  with no_partial_results [where run = demo_run and w = ?w and ctx = ?ctx
      and yaml_dump = flow_style and query = "''SELEC * FROM users''"
      and e = "DatabaseError ''syntax error''", THEN conjunct1, rule_format, OF bad]
    no_partial_results [where run = demo_run and w = ?w and ctx = ?ctx
      and yaml_dump = flow_style and query = "''SELECT id FROM users LIMIT 1''",
      THEN conjunct2, rule_format, OF ok]
  show ?thesis
    by (simp add: demo_session_start)
qed

text \<open>
  Claim C9. Two calls of \<^verbatim>\<open>get_schema_description\<close> with the same schema name return
  the same string whenever the catalog query returns the same rows in both states of
  the world and the server is as reachable in one as in the other; connections opened
  and closed in between do not matter.
\<close>

theorem list_tables_deterministic:
  assumes "reachable (database w') = reachable (database w)"
    and "list_tables_query (database w') schema = list_tables_query (database w) schema"
  shows "fst (get_schema_description V yaml_dump schema w') =
         fst (get_schema_description V yaml_dump schema w)"
proof (cases "reachable (database w)")
  case True
  with assms show ?thesis
    by (simp add: get_schema_description_fst fetch_tables_reachable)
next
  case False
  with assms show ?thesis
    by (simp add: get_schema_description_fst fetch_tables_unreachable)
qed

theorem list_tables_deterministic_witness:
  "fst (get_schema_description typed_validators flow_style ''public''
          (snd (get_schema_description typed_validators flow_style ''public'' demo_world))) =
   fst (get_schema_description typed_validators flow_style ''public'' demo_world) \<and>
   fst (get_schema_description typed_validators flow_style ''public'' demo_world) =
     Inr ''{tables: [{schema_name: public, table_name: users, table_description: Application users, }, ], }''"
proof -
  have "fst (get_schema_description typed_validators flow_style ''public'' demo_world) =
     Inr ''{tables: [{schema_name: public, table_name: users, table_description: Application users, }, ], }''"
    by (simp add: get_schema_description_fst fetch_tables_reachable demo_world_simps demo_tables
        make_DatabaseSummary_def make_TableSummary_def typed_validators_def
        validate_optional_def DatabaseSummary_model_dump_def TableSummary_model_dump_def
        dump_optional_def)
  then show ?thesis
    using list_tables_deterministic [where w = demo_world
        and w' = "snd (get_schema_description typed_validators flow_style ''public'' demo_world)"
        and schema = "''public''" and V = typed_validators and yaml_dump = flow_style]
    by simp
qed

text \<open>
  Claim C10. Whatever \<^verbatim>\<open>get_table_description\<close> returns is the serialization of a
  table whose \<open>schema_name\<close> and \<open>table_name\<close> are the two arguments of the call, as
  given; the fetched rows only supply the columns. It returns exactly when the server
  can be reached and every fetched row yields a column, which includes the absent table
  with no rows at all.
\<close>

theorem table_names_echoed:
  "fst (get_table_description V yaml_dump schema table w) = Inr out \<longleftrightarrow>
     reachable (database w) \<and>
     (\<exists>cs. comprehension (make_Column V)
             (map TupleRow (records (describe_table_query (database w) schema table))) = Inr cs \<and>
           out = yaml_dump (Table_model_dump
                   \<lparr>schema_name = schema, table_name = table, columns = cs\<rparr>))"
proof (cases "reachable (database w)")
  case True
  then show ?thesis
    by (auto simp: get_table_description_fst fetch_columns_reachable make_Table_def
        bind_eq_Inr_iff)
next
  case False
  then show ?thesis
    by (simp add: get_table_description_fst fetch_columns_unreachable)
qed

theorem table_names_echoed_witness:
  "fst (get_table_description typed_validators flow_style ''public'' ''users'' demo_world) =
     Inr (flow_style (Table_model_dump \<lparr>schema_name = ''public'', table_name = ''users'',
      columns = [\<lparr>column_name = ''id'', data_type = ''uuid'', is_nullable = False,
                  column_default = Some ''gen_random_uuid()'', character_maximum_length = None,
                  numeric_precision = None, numeric_scale = None\<rparr>,
                 \<lparr>column_name = ''name'', data_type = ''text'', is_nullable = True,
                  column_default = None, character_maximum_length = None,
                  numeric_precision = None, numeric_scale = None\<rparr>,
                 \<lparr>column_name = ''age'', data_type = ''integer'', is_nullable = True,
                  column_default = None, character_maximum_length = None,
                  numeric_precision = Some 32, numeric_scale = Some 0\<rparr>]\<rparr>))"
  by (rule table_names_echoed [THEN iffD2])
    (simp add: demo_world_simps demo_columns make_Column_def typed_validators_def
      validate_optional_def)
end
